theory Spec2Isabelle
  imports Complex_Main
begin

section \<open>The single-qubit state engine of \<^verbatim>\<open>utils/quantumEngine.ts\<close>\<close>

text \<open>
  The engine computes on JavaScript numbers. They are embedded as exact reals: every
  \<^verbatim>\<open>number\<close> is a \<^typ>\<open>real\<close>, \<^verbatim>\<open>Math.sqrt\<close>, \<^verbatim>\<open>Math.sin\<close>, \<^verbatim>\<open>Math.cos\<close>,
  \<^verbatim>\<open>Math.asin\<close> and \<^verbatim>\<open>Math.PI\<close> are \<^const>\<open>sqrt\<close>, \<^const>\<open>sin\<close>, \<^const>\<open>cos\<close>,
  \<^const>\<open>arcsin\<close> and \<^const>\<open>pi\<close>. Rounding, signed zeros, infinities and NaN are
  outside this embedding, so a statement with an approximate equality in the
  specification is proved here as an exact one.
\<close>

subsection \<open>Complex number math\<close>

record Complex =
  r :: real
  i :: real

definition createComplex :: "real \<Rightarrow> real \<Rightarrow> Complex" where
  "createComplex re im = \<lparr>r = re, i = im\<rparr>"

definition add :: "Complex \<Rightarrow> Complex \<Rightarrow> Complex" where
  "add a b = \<lparr>r = r a + r b, i = i a + i b\<rparr>"

definition multiply :: "Complex \<Rightarrow> Complex \<Rightarrow> Complex" where
  "multiply a b = \<lparr>r = r a * r b - i a * i b, i = r a * i b + i a * r b\<rparr>"

definition magnitude :: "Complex \<Rightarrow> real" where
  "magnitude c = sqrt (r c * r c + i c * i c)"

text \<open>Euler's formula: the point of the unit circle at angle \<open>theta\<close>.\<close>

definition expImaginary :: "real \<Rightarrow> Complex" where
  "expImaginary theta = \<lparr>r = cos theta, i = sin theta\<rparr>"

subsection \<open>Quantum states and the gate catalogue\<close>

record QuantumState =
  alpha :: Complex
  beta :: Complex

definition INITIAL_STATE :: QuantumState where
  "INITIAL_STATE = \<lparr>alpha = createComplex 1 0, beta = createComplex 0 0\<rparr>"

definition STATE_ONE :: QuantumState where
  "STATE_ONE = \<lparr>alpha = createComplex 0 0, beta = createComplex 1 0\<rparr>"

definition STATE_ZERO :: QuantumState where
  "STATE_ZERO = \<lparr>alpha = createComplex 1 0, beta = createComplex 0 0\<rparr>"

text \<open>
  \<^verbatim>\<open>GateType\<close> is the key type of the table \<^verbatim>\<open>GATES\<close>, a
  \<^verbatim>\<open>Record<GateType, Matrix2x2>\<close> with exactly the six keys below.
\<close>

datatype GateType = H | X | Y | Z | S | T

text \<open>A matrix is a pair of rows, each a pair of entries: \<^verbatim>\<open>[[a, b], [c, d]]\<close>.\<close>

type_synonym Matrix2x2 = "(Complex \<times> Complex) \<times> (Complex \<times> Complex)"

definition ZERO :: Complex where
  "ZERO = createComplex 0 0"

definition ONE :: Complex where
  "ONE = createComplex 1 0"

definition NEG_ONE :: Complex where
  "NEG_ONE = createComplex (- 1) 0"

definition I :: Complex where
  "I = createComplex 0 1"

definition NEG_I :: Complex where
  "NEG_I = createComplex 0 (- 1)"

definition INV_SQRT_2 :: Complex where
  "INV_SQRT_2 = createComplex (1 / sqrt 2) 0"

fun GATES :: "GateType \<Rightarrow> Matrix2x2" where
  "GATES H = ((INV_SQRT_2, INV_SQRT_2), (INV_SQRT_2, createComplex (- 1 / sqrt 2) 0))"
| "GATES X = ((ZERO, ONE), (ONE, ZERO))"
| "GATES Y = ((ZERO, NEG_I), (I, ZERO))"
| "GATES Z = ((ONE, ZERO), (ZERO, NEG_ONE))"
| "GATES S = ((ONE, ZERO), (ZERO, I))"
| "GATES T = ((ONE, ZERO), (ZERO, expImaginary (pi / 4)))"

text \<open>
  Matrix times vector:
  \<^verbatim>\<open>[ a b ] [ alpha ] = [ a*alpha + b*beta ]\<close>,
  \<^verbatim>\<open>[ c d ] [ beta  ]   [ c*alpha + d*beta ]\<close>.
\<close>

definition applyGate :: "QuantumState \<Rightarrow> GateType \<Rightarrow> QuantumState" where
  "applyGate state gate =
     (let matrix = GATES gate;
          newAlpha = add (multiply (fst (fst matrix)) (alpha state))
                         (multiply (snd (fst matrix)) (beta state));
          newBeta = add (multiply (fst (snd matrix)) (alpha state))
                        (multiply (snd (snd matrix)) (beta state))
      in \<lparr>alpha = newAlpha, beta = newBeta\<rparr>)"

subsection \<open>Bloch sphere coordinates\<close>

text \<open>
  \<^verbatim>\<open>Math.atan2(y, x)\<close> over exact reals: the angle in \<open>(-\<pi>, \<pi>]\<close> of the point
  \<open>(x, y)\<close>, and \<open>0\<close> at the origin, as ECMAScript returns for \<^verbatim>\<open>Math.atan2(0, 0)\<close>.
\<close>

definition atan2 :: "real \<Rightarrow> real \<Rightarrow> real" where
  "atan2 b a =
     (if 0 < a then arctan (b / a)
      else if a < 0 then (if 0 \<le> b then arctan (b / a) + pi else arctan (b / a) - pi)
      else if 0 < b then pi / 2
      else if b < 0 then - (pi / 2)
      else 0)"

record BlochCoordinates =
  x :: real
  y :: real
  z :: real

definition getBlochCoordinates :: "QuantumState \<Rightarrow> BlochCoordinates" where
  "getBlochCoordinates state =
     (let magBeta = magnitude (beta state);
          clampedBeta = min (max magBeta 0) 1;
          theta = 2 * arcsin clampedBeta;
          phaseAlpha = atan2 (i (alpha state)) (r (alpha state));
          phaseBeta = atan2 (i (beta state)) (r (beta state));
          phi = phaseBeta - phaseAlpha
      in \<lparr>x = sin theta * cos phi, y = sin theta * sin phi, z = cos theta\<rparr>)"

subsection \<open>Probability and measurement\<close>

definition getProbability :: "QuantumState \<Rightarrow> real" where
  "getProbability state = (let magBeta = magnitude (beta state) in magBeta * magBeta)"

text \<open>
  \<^verbatim>\<open>measure\<close> draws \<^verbatim>\<open>Math.random()\<close>, a number in \<open>[0, 1)\<close>. The draw is the
  second argument here, so that the function of the state and the draw is
  deterministic. The outcome, of type \<^verbatim>\<open>0 | 1\<close>, is a natural number. The function
  is named \<open>measure_state\<close> because \<open>measure\<close> is a constant of the library.
\<close>

record Measurement =
  collapsedState :: QuantumState
  outcome :: nat

definition measure_state :: "QuantumState \<Rightarrow> real \<Rightarrow> Measurement" where
  "measure_state state roll =
     (let probOne = getProbability state
      in if roll < probOne then \<lparr>collapsedState = STATE_ONE, outcome = 1\<rparr>
         else \<lparr>collapsedState = STATE_ZERO, outcome = 0\<rparr>)"

subsection \<open>Notions of the specification\<close>

text \<open>The squared norm \<open>|alpha|\<^sup>2 + |beta|\<^sup>2\<close> of a state; a state is normalized when it is 1.\<close>

definition normSquared :: "QuantumState \<Rightarrow> real" where
  "normSquared state = (magnitude (alpha state))\<^sup>2 + (magnitude (beta state))\<^sup>2"

text \<open>
  The gate table as the specification writes it (section 4.2), over the complex numbers
  of the library: Hadamard \<open>[[1/\<surd>2, 1/\<surd>2], [1/\<surd>2, -1/\<surd>2]]\<close>, Pauli-X
  \<open>[[0, 1], [1, 0]]\<close>, Pauli-Y \<open>[[0, -i], [i, 0]]\<close>, Pauli-Z \<open>[[1, 0], [0, -1]]\<close>,
  Phase \<open>[[1, 0], [0, i]]\<close> and \<open>\<pi>/4\<close>-Phase \<open>[[1, 0], [0, e^{i\<pi>/4}]]\<close>. It is
  compared with \<open>GATES\<close>, the table of the source.
\<close>

fun spec_catalogue :: "GateType \<Rightarrow> (complex \<times> complex) \<times> (complex \<times> complex)" where
  "spec_catalogue H = ((1 / sqrt 2, 1 / sqrt 2), (1 / sqrt 2, - 1 / sqrt 2))"
| "spec_catalogue X = ((0, 1), (1, 0))"
| "spec_catalogue Y = ((0, - \<i>), (\<i>, 0))"
| "spec_catalogue Z = ((1, 0), (0, - 1))"
| "spec_catalogue S = ((1, 0), (0, \<i>))"
| "spec_catalogue T = ((1, 0), (0, exp (\<i> * (pi / 4))))"

text \<open>The complex number a \<open>Complex\<close> object stands for, and back.\<close>

definition to_complex :: "Complex \<Rightarrow> complex" where
  "to_complex c = Complex (r c) (i c)"

definition of_complex :: "complex \<Rightarrow> Complex" where
  "of_complex c = \<lparr>r = Re c, i = Im c\<rparr>"

section \<open>Helper lemmas\<close>

lemma magnitude_sq: "(magnitude c)\<^sup>2 = (r c)\<^sup>2 + (i c)\<^sup>2"
  by (simp add: magnitude_def power2_eq_square)

lemma magnitude_nonneg: "0 \<le> magnitude c"
  by (simp add: magnitude_def)

lemma getProbability_sq: "getProbability s = (r (beta s))\<^sup>2 + (i (beta s))\<^sup>2"
  by (simp add: getProbability_def Let_def magnitude_def power2_eq_square)

lemma normSquared_eq:
  "normSquared s = (r (alpha s))\<^sup>2 + (i (alpha s))\<^sup>2 + (r (beta s))\<^sup>2 + (i (beta s))\<^sup>2"
  by (simp add: normSquared_def magnitude_sq)

subsection \<open>What each gate does to a state\<close>

lemmas consts_defs = ZERO_def ONE_def NEG_ONE_def I_def NEG_I_def INV_SQRT_2_def
  createComplex_def expImaginary_def

lemma applyGate_X: "applyGate s X = \<lparr>alpha = beta s, beta = alpha s\<rparr>"
  by (simp add: applyGate_def Let_def add_def multiply_def consts_defs)

lemma applyGate_Z: "applyGate s Z = \<lparr>alpha = alpha s, beta = \<lparr>r = - r (beta s), i = - i (beta s)\<rparr>\<rparr>"
  by (simp add: applyGate_def Let_def add_def multiply_def consts_defs)

lemma applyGate_Y: "applyGate s Y = \<lparr>alpha = \<lparr>r = i (beta s), i = - r (beta s)\<rparr>, beta = \<lparr>r = - i (alpha s), i = r (alpha s)\<rparr>\<rparr>"
  by (simp add: applyGate_def Let_def add_def multiply_def consts_defs)

lemma applyGate_S: "applyGate s S = \<lparr>alpha = alpha s, beta = \<lparr>r = - i (beta s), i = r (beta s)\<rparr>\<rparr>"
  by (simp add: applyGate_def Let_def add_def multiply_def consts_defs)

lemma applyGate_T: "applyGate s T = \<lparr>alpha = alpha s,
   beta = \<lparr>r = cos (pi / 4) * r (beta s) - sin (pi / 4) * i (beta s),
           i = cos (pi / 4) * i (beta s) + sin (pi / 4) * r (beta s)\<rparr>\<rparr>"
  by (simp add: applyGate_def Let_def add_def multiply_def consts_defs)

lemma applyGate_H: "applyGate s H = \<lparr>
   alpha = \<lparr>r = (r (alpha s) + r (beta s)) / sqrt 2, i = (i (alpha s) + i (beta s)) / sqrt 2\<rparr>,
   beta = \<lparr>r = (r (alpha s) - r (beta s)) / sqrt 2, i = (i (alpha s) - i (beta s)) / sqrt 2\<rparr>\<rparr>"
  by (simp add: applyGate_def Let_def add_def multiply_def consts_defs add_divide_distrib diff_divide_distrib)

lemma rot_sq: "(c * a - s * b)\<^sup>2 + (c * b + s * a)\<^sup>2 = (c\<^sup>2 + s\<^sup>2) * (a\<^sup>2 + b\<^sup>2)" for a b c s :: real
  by (simp add: power2_eq_square algebra_simps)

lemma had_sq: "((a + b) / sqrt 2)\<^sup>2 + ((a - b) / sqrt 2)\<^sup>2 = a\<^sup>2 + b\<^sup>2" for a b :: real
  by (simp add: power_divide power2_eq_square algebra_simps add_divide_distrib[symmetric])

lemma applyGate_normSquared: "normSquared (applyGate s g) = normSquared s"
proof (cases g)
  case H
  have "normSquared (applyGate s H) =
     (((r (alpha s) + r (beta s)) / sqrt 2)\<^sup>2 + ((r (alpha s) - r (beta s)) / sqrt 2)\<^sup>2)
     + (((i (alpha s) + i (beta s)) / sqrt 2)\<^sup>2 + ((i (alpha s) - i (beta s)) / sqrt 2)\<^sup>2)"
    by (simp add: normSquared_eq applyGate_H)
  also have "\<dots> = normSquared s"
    unfolding had_sq by (simp add: normSquared_eq)
  finally show ?thesis using H by simp
next
  case X
  then show ?thesis by (simp add: normSquared_eq applyGate_X)
next
  case Y
  then show ?thesis by (simp add: normSquared_eq applyGate_Y)
next
  case Z
  then show ?thesis by (simp add: normSquared_eq applyGate_Z)
next
  case S
  then show ?thesis by (simp add: normSquared_eq applyGate_S)
next
  case T
  have "normSquared (applyGate s T) = (r (alpha s))\<^sup>2 + (i (alpha s))\<^sup>2
      + ((cos (pi / 4))\<^sup>2 + (sin (pi / 4))\<^sup>2) * ((r (beta s))\<^sup>2 + (i (beta s))\<^sup>2)"
    unfolding normSquared_eq applyGate_T by (simp add: rot_sq del: cos_45 sin_45)
  also have "\<dots> = normSquared s"
    by (simp add: normSquared_eq del: cos_45 sin_45)
  finally show ?thesis using T by simp
qed

subsection \<open>The table of the source and the table of the specification\<close>

lemma to_complex_add: "to_complex (add a b) = to_complex a + to_complex b"
  by (simp add: to_complex_def add_def complex_eq_iff)

lemma to_complex_multiply: "to_complex (multiply a b) = to_complex a * to_complex b"
  by (simp add: to_complex_def multiply_def complex_eq_iff)

lemma to_complex_of_complex: "to_complex (of_complex c) = c"
  by (simp add: to_complex_def of_complex_def)

lemma of_complex_to_complex: "of_complex (to_complex c) = c"
  by (simp add: to_complex_def of_complex_def)

lemma GATES_catalogue:
  "GATES g = ((of_complex (fst (fst (spec_catalogue g))), of_complex (snd (fst (spec_catalogue g)))),
              (of_complex (fst (snd (spec_catalogue g))), of_complex (snd (snd (spec_catalogue g)))))"
proof (cases g)
  case H
  have "of_complex (1 / complex_of_real (sqrt 2)) = INV_SQRT_2"
    by (simp add: of_complex_def INV_SQRT_2_def createComplex_def Re_divide Im_divide power2_eq_square real_div_sqrt)
  moreover have "of_complex (- 1 / complex_of_real (sqrt 2)) = createComplex (- 1 / sqrt 2) 0"
    by (simp add: of_complex_def createComplex_def Re_divide Im_divide power2_eq_square real_div_sqrt)
  ultimately show ?thesis using H by simp
next
  case T
  have "of_complex (exp (\<i> * (complex_of_real pi / 4))) = expImaginary (pi / 4)"
    by (simp add: of_complex_def expImaginary_def Re_exp Im_exp del: cos_45 sin_45)
  then show ?thesis using T by (simp add: of_complex_def consts_defs)
qed (simp_all add: of_complex_def consts_defs)

subsection \<open>Bloch coordinates\<close>

lemma clamp_id: "0 \<le> m \<Longrightarrow> m \<le> 1 \<Longrightarrow> min (max m 0) (1::real) = m"
  by simp

lemma sphere_param: "(sin t * cos p)\<^sup>2 + (sin t * sin p)\<^sup>2 + (cos t)\<^sup>2 = 1" for t p :: real
proof -
  have "(sin t * cos p)\<^sup>2 + (sin t * sin p)\<^sup>2 = (sin t)\<^sup>2 * ((cos p)\<^sup>2 + (sin p)\<^sup>2)"
    by (simp only: power_mult_distrib distrib_left)
  also have "\<dots> = (sin t)\<^sup>2" by (simp only: cos_squared_eq) simp
  finally show ?thesis by simp
qed

lemma prod_unit: "\<bar>a\<bar> \<le> 1 \<Longrightarrow> \<bar>b\<bar> \<le> 1 \<Longrightarrow> - 1 \<le> a * b \<and> a * b \<le> (1::real)"
proof -
  assume "\<bar>a\<bar> \<le> 1" "\<bar>b\<bar> \<le> 1"
  then have "\<bar>a\<bar> * \<bar>b\<bar> \<le> 1 * 1" by (intro mult_mono) simp_all
  then have "\<bar>a * b\<bar> \<le> 1" by (simp add: abs_mult)
  then show ?thesis by (simp add: abs_le_iff)
qed

lemma bloch_on_sphere:
  "(x (getBlochCoordinates s))\<^sup>2 + (y (getBlochCoordinates s))\<^sup>2 + (z (getBlochCoordinates s))\<^sup>2 = 1"
  by (simp add: getBlochCoordinates_def Let_def sphere_param)

lemma bloch_bounds:
  "- 1 \<le> x (getBlochCoordinates s) \<and> x (getBlochCoordinates s) \<le> 1
   \<and> - 1 \<le> y (getBlochCoordinates s) \<and> y (getBlochCoordinates s) \<le> 1
   \<and> - 1 \<le> z (getBlochCoordinates s) \<and> z (getBlochCoordinates s) \<le> 1"
  by (simp add: getBlochCoordinates_def Let_def prod_unit)

lemma bloch_z: "magnitude (beta s) \<le> 1 \<Longrightarrow> z (getBlochCoordinates s) = 1 - 2 * (magnitude (beta s))\<^sup>2"
proof -
  assume le: "magnitude (beta s) \<le> 1"
  have ge: "0 \<le> magnitude (beta s)" by (rule magnitude_nonneg)
  have "z (getBlochCoordinates s) = cos (2 * arcsin (magnitude (beta s)))"
    using le ge by (simp add: getBlochCoordinates_def Let_def)
  also have "\<dots> = 1 - 2 * (sin (arcsin (magnitude (beta s))))\<^sup>2"
    by (rule cos_double_sin)
  also have "sin (arcsin (magnitude (beta s))) = magnitude (beta s)"
    using le ge by (intro sin_arcsin) linarith+
  finally show ?thesis .
qed

lemma atan2_simps: "atan2 0 0 = 0" "0 < a \<Longrightarrow> atan2 0 a = 0" "a < 0 \<Longrightarrow> atan2 0 a = pi"
  by (simp_all add: atan2_def)

lemma bloch_zero: "getBlochCoordinates STATE_ZERO = \<lparr>x = 0, y = 0, z = 1\<rparr>"
  by (simp add: getBlochCoordinates_def Let_def STATE_ZERO_def createComplex_def magnitude_def atan2_simps)

lemma bloch_one: "getBlochCoordinates STATE_ONE = \<lparr>x = 0, y = 0, z = - 1\<rparr>"
  by (simp add: getBlochCoordinates_def Let_def STATE_ONE_def createComplex_def magnitude_def atan2_simps)

lemma magnitude_real: "magnitude \<lparr>r = a, i = 0\<rparr> = \<bar>a\<bar>"
  by (simp add: magnitude_def)

lemma inv_sqrt2_bounds: "0 < 1 / sqrt 2" "1 / sqrt 2 \<le> (1::real)"
  by simp_all

lemma state_H: "applyGate STATE_ZERO H =
   \<lparr>alpha = \<lparr>r = 1 / sqrt 2, i = 0\<rparr>, beta = \<lparr>r = 1 / sqrt 2, i = 0\<rparr>\<rparr>"
  by (simp add: applyGate_H STATE_ZERO_def createComplex_def)

lemma state_HZ: "applyGate (applyGate STATE_ZERO H) Z =
   \<lparr>alpha = \<lparr>r = 1 / sqrt 2, i = 0\<rparr>, beta = \<lparr>r = - (1 / sqrt 2), i = 0\<rparr>\<rparr>"
  by (simp add: state_H applyGate_Z)

lemma theta_equator: "2 * arcsin (min (max (1 / sqrt 2) 0) 1) = pi / 2"
proof -
  have "min (max (1 / sqrt 2) 0) 1 = 1 / sqrt 2"
    using inv_sqrt2_bounds by (intro clamp_id) simp_all
  then show ?thesis by (simp add: arcsin_one_over_sqrt_2)
qed

lemma bloch_H: "getBlochCoordinates (applyGate STATE_ZERO H) = \<lparr>x = 1, y = 0, z = 0\<rparr>"
proof -
  have "getBlochCoordinates (applyGate STATE_ZERO H) =
     \<lparr>x = sin (pi / 2) * cos (0 - 0), y = sin (pi / 2) * sin (0 - 0), z = cos (pi / 2)\<rparr>"
    unfolding state_H getBlochCoordinates_def Let_def
    by (simp only: QuantumState.simps Complex.simps magnitude_real atan2_simps(2)[OF inv_sqrt2_bounds(1)]
        abs_of_pos[OF inv_sqrt2_bounds(1)] theta_equator)
  then show ?thesis by simp
qed

lemma bloch_HZ:
  "getBlochCoordinates (applyGate (applyGate STATE_ZERO H) Z) = \<lparr>x = - 1, y = 0, z = 0\<rparr>"
proof -
  have neg: "- (1 / sqrt 2) < (0::real)" by simp
  have ab: "\<bar>- (1 / sqrt 2)\<bar> = 1 / sqrt 2" by simp
  have "getBlochCoordinates (applyGate (applyGate STATE_ZERO H) Z) =
     \<lparr>x = sin (pi / 2) * cos (pi - 0), y = sin (pi / 2) * sin (pi - 0), z = cos (pi / 2)\<rparr>"
    unfolding state_HZ getBlochCoordinates_def Let_def
    by (simp only: QuantumState.simps Complex.simps magnitude_real atan2_simps(2)[OF inv_sqrt2_bounds(1)]
        atan2_simps(3)[OF neg] ab theta_equator)
  then show ?thesis by simp
qed

lemma prob_H: "getProbability (applyGate STATE_ZERO H) = 1 / 2"
  by (simp add: getProbability_sq state_H power_divide)

lemma norm_H: "normSquared (applyGate STATE_ZERO H) = 1"
  by (simp add: normSquared_eq state_H power_divide)

subsection \<open>A state that is not normalized\<close>

lemma heavy_state:
  "normSquared \<lparr>alpha = createComplex 0 0, beta = createComplex 2 0\<rparr> = 4"
  "getProbability \<lparr>alpha = createComplex 0 0, beta = createComplex 2 0\<rparr> = 4"
  by (simp_all add: normSquared_eq getProbability_sq createComplex_def)

lemma bloch_heavy:
  "getBlochCoordinates \<lparr>alpha = createComplex 0 0, beta = createComplex 2 0\<rparr>
     = \<lparr>x = 0, y = 0, z = - 1\<rparr>"
  by (simp add: getBlochCoordinates_def Let_def createComplex_def magnitude_def atan2_simps)

section \<open>Probability of the one outcome\<close>

text \<open>
  Claim C5. For every quantum state \<open>getProbability\<close> returns the square of the
  magnitude of \<open>beta\<close> (a value, for every state: the function has no failing
  branch); for every normalized state the result lies in \<open>[0, 1]\<close>; on the canonical
  zero state it is exactly 0 and on the canonical one state exactly 1.
\<close>

theorem getProbability_spec:
  "getProbability s = (magnitude (beta s))\<^sup>2
   \<and> (normSquared s = 1 \<longrightarrow> 0 \<le> getProbability s \<and> getProbability s \<le> 1)
   \<and> getProbability STATE_ZERO = 0
   \<and> getProbability STATE_ONE = 1"
proof -
  have eq: "getProbability s = (magnitude (beta s))\<^sup>2"
    by (simp add: getProbability_def Let_def power2_eq_square)
  have rng: "normSquared s = 1 \<longrightarrow> 0 \<le> getProbability s \<and> getProbability s \<le> 1"
  proof
    assume n: "normSquared s = 1"
    have a: "0 \<le> (magnitude (alpha s))\<^sup>2" by (rule zero_le_power2)
    have b: "0 \<le> (magnitude (beta s))\<^sup>2" by (rule zero_le_power2)
    from n a b have "(magnitude (beta s))\<^sup>2 \<le> 1"
      unfolding normSquared_def by linarith
    with b show "0 \<le> getProbability s \<and> getProbability s \<le> 1"
      unfolding eq by blast
  qed
  have z: "getProbability STATE_ZERO = 0"
    by (simp add: getProbability_sq STATE_ZERO_def createComplex_def)
  have o: "getProbability STATE_ONE = 1"
    by (simp add: getProbability_sq STATE_ONE_def createComplex_def)
  from eq rng z o show ?thesis by blast
qed

theorem getProbability_spec_witness:
  "normSquared STATE_ONE = 1 \<and> 0 \<le> getProbability STATE_ONE \<and> getProbability STATE_ONE \<le> 1"
proof -
  have n: "normSquared STATE_ONE = 1"
    by (simp add: normSquared_eq STATE_ONE_def createComplex_def)
  with getProbability_spec [of STATE_ONE] show ?thesis by blast
qed

section \<open>Gate application\<close>

text \<open>
  Claim C1. For every quantum state with \<open>|alpha|\<^sup>2 + |beta|\<^sup>2 = 1\<close> and every gate of
  the catalogue H, X, Y, Z, S, T, the state returned by \<open>applyGate\<close> again satisfies
  \<open>|alpha|\<^sup>2 + |beta|\<^sup>2 = 1\<close> (exactly, over the exact reals).
\<close>

theorem applyGate_normalized:
  "normSquared s = 1 \<Longrightarrow> normSquared (applyGate s g) = 1"
  by (simp add: applyGate_normSquared)

theorem applyGate_normalized_witness:
  "normSquared STATE_ZERO = 1 \<and> normSquared (applyGate STATE_ZERO H) = 1"
proof -
  have n: "normSquared STATE_ZERO = 1"
    by (simp add: normSquared_eq STATE_ZERO_def createComplex_def)
  from n applyGate_normalized [OF n, of H] show ?thesis by blast
qed

text \<open>
  Claim C2. For every quantum state and every gate \<open>g\<close> of the catalogue, \<open>applyGate\<close>
  returns the state with \<open>newAlpha = M[0][0]*alpha + M[0][1]*beta\<close> and
  \<open>newBeta = M[1][0]*alpha + M[1][1]*beta\<close>, where \<open>M\<close> is the matrix that the table of
  the specification assigns to \<open>g\<close>, computed with the primitives \<open>add\<close> and
  \<open>multiply\<close>: the table \<open>GATES\<close> of the source is that table, entry by entry, and,
  read as complex numbers, \<open>add\<close> and \<open>multiply\<close> are the sum and the product of the
  complex field.
\<close>

theorem applyGate_catalogue:
  "GATES g =
     ((of_complex (fst (fst (spec_catalogue g))), of_complex (snd (fst (spec_catalogue g)))),
      (of_complex (fst (snd (spec_catalogue g))), of_complex (snd (snd (spec_catalogue g)))))
   \<and> applyGate s g =
     \<lparr>alpha = add (multiply (of_complex (fst (fst (spec_catalogue g)))) (alpha s))
                  (multiply (of_complex (snd (fst (spec_catalogue g)))) (beta s)),
      beta = add (multiply (of_complex (fst (snd (spec_catalogue g)))) (alpha s))
                 (multiply (of_complex (snd (snd (spec_catalogue g)))) (beta s))\<rparr>
   \<and> to_complex (alpha (applyGate s g)) =
       fst (fst (spec_catalogue g)) * to_complex (alpha s)
       + snd (fst (spec_catalogue g)) * to_complex (beta s)
   \<and> to_complex (beta (applyGate s g)) =
       fst (snd (spec_catalogue g)) * to_complex (alpha s)
       + snd (snd (spec_catalogue g)) * to_complex (beta s)"
proof -
  have a: "applyGate s g =
     \<lparr>alpha = add (multiply (of_complex (fst (fst (spec_catalogue g)))) (alpha s))
                  (multiply (of_complex (snd (fst (spec_catalogue g)))) (beta s)),
      beta = add (multiply (of_complex (fst (snd (spec_catalogue g)))) (alpha s))
                 (multiply (of_complex (snd (snd (spec_catalogue g)))) (beta s))\<rparr>"
    unfolding applyGate_def Let_def by (subst (1 2 3 4) GATES_catalogue) simp
  have b: "to_complex (alpha (applyGate s g)) =
       fst (fst (spec_catalogue g)) * to_complex (alpha s)
       + snd (fst (spec_catalogue g)) * to_complex (beta s)"
    by (subst a) (simp add: to_complex_add to_complex_multiply to_complex_of_complex)
  have c: "to_complex (beta (applyGate s g)) =
       fst (snd (spec_catalogue g)) * to_complex (alpha s)
       + snd (snd (spec_catalogue g)) * to_complex (beta s)"
    by (subst a) (simp add: to_complex_add to_complex_multiply to_complex_of_complex)
  from GATES_catalogue [of g] a b c show ?thesis by blast
qed

text \<open>
  Claim C8. For every quantum state \<open>s\<close>, applying X twice gives \<open>s\<close> back, and
  applying Z twice gives \<open>s\<close> back: each of Pauli-X and Pauli-Z is its own inverse.
\<close>

theorem pauli_self_inverse:
  "applyGate (applyGate s X) X = s \<and> applyGate (applyGate s Z) Z = s"
  by (simp add: applyGate_X applyGate_Z)

section \<open>Measurement\<close>

text \<open>
  Claim C3. For every quantum state and every draw \<open>u\<close> in \<open>[0, 1)\<close>, the measurement
  returns outcome 1 with exactly the canonical one state (alpha 0, beta 1) if and only
  if \<open>u\<close> is below the probability of one, and otherwise outcome 0 with exactly the
  canonical zero state (alpha 1, beta 0); on the canonical zero state the outcome is
  always 0 and the zero state is returned, on the canonical one state the outcome
  is always 1.
\<close>

theorem measure_spec:
  assumes "0 \<le> u" and "u < 1"
  shows "(measure_state s u = \<lparr>collapsedState = STATE_ONE, outcome = 1\<rparr> \<longleftrightarrow> u < getProbability s)
    \<and> (measure_state s u = \<lparr>collapsedState = STATE_ZERO, outcome = 0\<rparr> \<longleftrightarrow> \<not> u < getProbability s)
    \<and> measure_state STATE_ZERO u = \<lparr>collapsedState = STATE_ZERO, outcome = 0\<rparr>
    \<and> measure_state STATE_ONE u = \<lparr>collapsedState = STATE_ONE, outcome = 1\<rparr>
    \<and> STATE_ZERO = \<lparr>alpha = \<lparr>r = 1, i = 0\<rparr>, beta = \<lparr>r = 0, i = 0\<rparr>\<rparr>
    \<and> STATE_ONE = \<lparr>alpha = \<lparr>r = 0, i = 0\<rparr>, beta = \<lparr>r = 1, i = 0\<rparr>\<rparr>"
proof -
  have z: "getProbability STATE_ZERO = 0"
    by (simp add: getProbability_sq STATE_ZERO_def createComplex_def)
  have o: "getProbability STATE_ONE = 1"
    by (simp add: getProbability_sq STATE_ONE_def createComplex_def)
  from assms z o show ?thesis
    by (simp add: measure_state_def Let_def STATE_ZERO_def STATE_ONE_def createComplex_def)
qed

theorem measure_spec_witness:
  "(0::real) \<le> 1 / 2 \<and> (1 / 2 :: real) < 1
   \<and> measure_state STATE_ONE (1 / 2) = \<lparr>collapsedState = STATE_ONE, outcome = 1\<rparr>
   \<and> measure_state STATE_ZERO (1 / 2) = \<lparr>collapsedState = STATE_ZERO, outcome = 0\<rparr>"
  using measure_spec [of "1 / 2" STATE_ONE] by simp

section \<open>Bloch coordinates of a state\<close>

text \<open>
  Claim C6. \<open>getBlochCoordinates\<close> maps the canonical zero state to the north pole
  \<open>(0, 0, 1)\<close> and the canonical one state to the south pole \<open>(0, 0, -1)\<close>, and
  the state obtained by applying Hadamard to the canonical zero state to a point of
  the equator: \<open>z = 0\<close> and \<open>x\<^sup>2 + y\<^sup>2 = 1\<close>.
\<close>

theorem blochCoordinates_poles_equator:
  "getBlochCoordinates STATE_ZERO = \<lparr>x = 0, y = 0, z = 1\<rparr>
   \<and> getBlochCoordinates STATE_ONE = \<lparr>x = 0, y = 0, z = - 1\<rparr>
   \<and> z (getBlochCoordinates (applyGate STATE_ZERO H)) = 0
   \<and> (x (getBlochCoordinates (applyGate STATE_ZERO H)))\<^sup>2
      + (y (getBlochCoordinates (applyGate STATE_ZERO H)))\<^sup>2 = 1"
  by (simp add: bloch_zero bloch_one bloch_H)

text \<open>
  Claim C7. For every normalized quantum state, \<open>getBlochCoordinates\<close> returns
  \<open>(x, y, z)\<close> with each coordinate in \<open>[-1, 1]\<close> and \<open>x\<^sup>2 + y\<^sup>2 + z\<^sup>2 = 1\<close>.
\<close>

theorem blochCoordinates_unit_sphere:
  assumes "normSquared s = 1"
  shows "- 1 \<le> x (getBlochCoordinates s) \<and> x (getBlochCoordinates s) \<le> 1
   \<and> - 1 \<le> y (getBlochCoordinates s) \<and> y (getBlochCoordinates s) \<le> 1
   \<and> - 1 \<le> z (getBlochCoordinates s) \<and> z (getBlochCoordinates s) \<le> 1
   \<and> (x (getBlochCoordinates s))\<^sup>2 + (y (getBlochCoordinates s))\<^sup>2
      + (z (getBlochCoordinates s))\<^sup>2 = 1"
  using bloch_bounds [of s] bloch_on_sphere [of s] by blast

theorem blochCoordinates_unit_sphere_witness:
  "normSquared (applyGate STATE_ZERO H) = 1
   \<and> x (getBlochCoordinates (applyGate STATE_ZERO H)) = 1
   \<and> (x (getBlochCoordinates (applyGate STATE_ZERO H)))\<^sup>2
      + (y (getBlochCoordinates (applyGate STATE_ZERO H)))\<^sup>2
      + (z (getBlochCoordinates (applyGate STATE_ZERO H)))\<^sup>2 = 1"
  using blochCoordinates_unit_sphere [OF norm_H] norm_H by (simp add: bloch_H)

text \<open>
  Claim C10. For every quantum state whose \<open>beta\<close> has magnitude at most 1, the
  \<open>z\<close> coordinate returned by \<open>getBlochCoordinates\<close> is \<open>1 - 2 * getProbability\<close> of
  the state, since \<open>cos (2 * arcsin m) = 1 - 2 * m\<^sup>2\<close>.
\<close>

theorem bloch_z_probability:
  "magnitude (beta s) \<le> 1 \<Longrightarrow> z (getBlochCoordinates s) = 1 - 2 * getProbability s"
  by (simp add: bloch_z getProbability_def Let_def power2_eq_square)

theorem bloch_z_probability_witness:
  "magnitude (beta STATE_ONE) \<le> 1
   \<and> z (getBlochCoordinates STATE_ONE) = 1 - 2 * getProbability STATE_ONE
   \<and> z (getBlochCoordinates STATE_ONE) = - 1"
proof -
  have m: "magnitude (beta STATE_ONE) \<le> 1"
    by (simp add: STATE_ONE_def createComplex_def magnitude_def)
  from m bloch_z_probability [OF m] show ?thesis by (simp add: bloch_one)
qed

section \<open>Phase gates\<close>

text \<open>
  Claim C9. Applying a phase gate (Z, S or T) to any quantum state leaves the
  probability of one unchanged and alters only the relative phase: \<open>alpha\<close> and the
  magnitude of \<open>beta\<close> stay. Starting from the canonical zero state, after H and then Z
  the probability is still one half, the Bloch \<open>z\<close> coordinate stays 0, and the Bloch
  \<open>(x, y)\<close> has moved from \<open>(1, 0)\<close> before Z to \<open>(-1, 0)\<close> after it.
\<close>

theorem phase_gates_keep_probability:
  assumes "g = Z \<or> g = S \<or> g = T"
  shows "getProbability (applyGate s g) = getProbability s
   \<and> alpha (applyGate s g) = alpha s
   \<and> magnitude (beta (applyGate s g)) = magnitude (beta s)
   \<and> getProbability (applyGate (applyGate STATE_ZERO H) Z) = 1 / 2
   \<and> getProbability (applyGate STATE_ZERO H) = 1 / 2
   \<and> getBlochCoordinates (applyGate STATE_ZERO H) = \<lparr>x = 1, y = 0, z = 0\<rparr>
   \<and> getBlochCoordinates (applyGate (applyGate STATE_ZERO H) Z) = \<lparr>x = - 1, y = 0, z = 0\<rparr>"
proof -
  have mag: "magnitude (beta (applyGate s g)) = magnitude (beta s)"
    using assms
  proof (elim disjE)
    assume "g = T"
    have "(cos (pi / 4) * r (beta s) - sin (pi / 4) * i (beta s))\<^sup>2
        + (cos (pi / 4) * i (beta s) + sin (pi / 4) * r (beta s))\<^sup>2
        = ((cos (pi / 4))\<^sup>2 + (sin (pi / 4))\<^sup>2) * ((r (beta s))\<^sup>2 + (i (beta s))\<^sup>2)"
      by (rule rot_sq)
    also have "\<dots> = (r (beta s))\<^sup>2 + (i (beta s))\<^sup>2"
      by (simp del: cos_45 sin_45)
    finally show ?thesis using \<open>g = T\<close>
      by (simp add: applyGate_T magnitude_def power2_eq_square del: cos_45 sin_45)
  qed (simp_all add: applyGate_Z applyGate_S magnitude_def add.commute)
  have al: "alpha (applyGate s g) = alpha s"
    using assms by (auto simp add: applyGate_Z applyGate_S applyGate_T)
  have pr: "getProbability (applyGate s g) = getProbability s"
    by (simp add: getProbability_def Let_def mag)
  have hz: "getProbability (applyGate (applyGate STATE_ZERO H) Z) = 1 / 2"
    by (simp add: getProbability_sq state_HZ power_divide)
  from mag al pr hz prob_H bloch_H bloch_HZ show ?thesis by blast
qed

theorem phase_gates_keep_probability_witness:
  "(T = Z \<or> T = S \<or> T = T)
   \<and> getProbability (applyGate (applyGate STATE_ZERO H) T) = 1 / 2
   \<and> alpha (applyGate (applyGate STATE_ZERO H) T) = \<lparr>r = 1 / sqrt 2, i = 0\<rparr>"
proof -
  have g: "T = Z \<or> T = S \<or> T = T" by simp
  from phase_gates_keep_probability [OF g, of "applyGate STATE_ZERO H"] show ?thesis
    by (simp add: state_H)
qed

section \<open>States that are not normalized\<close>

text \<open>
  Claim C4, as the specification states it: for a state with
  \<open>|alpha|\<^sup>2 + |beta|\<^sup>2 \<noteq> 1\<close> no failure is raised, and for some such state the
  probability lies outside \<open>[0, 1]\<close> and the Bloch point lies off the unit sphere.
  The second half fails: \<open>getBlochCoordinates\<close> clamps the magnitude of \<open>beta\<close> into
  \<open>[0, 1]\<close> and returns \<open>(sin \<theta> cos \<phi>, sin \<theta> sin \<phi>, cos \<theta>)\<close>, a point of the unit
  sphere whatever the state. At \<open>alpha = 0\<close>, \<open>beta = 2\<close> the squared norm is 4, the
  probability is 4, and the Bloch point is the south pole; no state that is not
  normalized has a Bloch point off the sphere.
\<close>

theorem nonnormalized_off_sphere_counterexample:
  "normSquared \<lparr>alpha = createComplex 0 0, beta = createComplex 2 0\<rparr> = 4
   \<and> getProbability \<lparr>alpha = createComplex 0 0, beta = createComplex 2 0\<rparr> = 4
   \<and> getBlochCoordinates \<lparr>alpha = createComplex 0 0, beta = createComplex 2 0\<rparr>
       = \<lparr>x = 0, y = 0, z = - 1\<rparr>
   \<and> \<not> (\<exists>s. normSquared s \<noteq> 1
          \<and> (getProbability s < 0 \<or> 1 < getProbability s)
          \<and> (x (getBlochCoordinates s))\<^sup>2 + (y (getBlochCoordinates s))\<^sup>2
              + (z (getBlochCoordinates s))\<^sup>2 \<noteq> 1)"
  by (simp add: heavy_state bloch_heavy bloch_on_sphere)

text \<open>
  Claim C4, amended. For every state with \<open>|alpha|\<^sup>2 + |beta|\<^sup>2 \<noteq> 1\<close> the three
  functions return a result: the probability is the squared magnitude of \<open>beta\<close>,
  not negative, the measurement is one of the two canonical results, and the Bloch
  point lies on the unit sphere; for some such state the probability exceeds 1.
\<close>

theorem nonnormalized_results:
  assumes "normSquared s \<noteq> 1"
  shows "getProbability s = (magnitude (beta s))\<^sup>2
   \<and> 0 \<le> getProbability s
   \<and> (measure_state s u = \<lparr>collapsedState = STATE_ONE, outcome = 1\<rparr>
      \<or> measure_state s u = \<lparr>collapsedState = STATE_ZERO, outcome = 0\<rparr>)
   \<and> (x (getBlochCoordinates s))\<^sup>2 + (y (getBlochCoordinates s))\<^sup>2
      + (z (getBlochCoordinates s))\<^sup>2 = 1
   \<and> (\<exists>s'. normSquared s' \<noteq> 1 \<and> 1 < getProbability s')"
proof -
  have p: "getProbability s = (magnitude (beta s))\<^sup>2"
    by (simp add: getProbability_def Let_def power2_eq_square)
  have nn: "0 \<le> getProbability s"
    unfolding p by (rule zero_le_power2)
  have m: "measure_state s u = \<lparr>collapsedState = STATE_ONE, outcome = 1\<rparr>
      \<or> measure_state s u = \<lparr>collapsedState = STATE_ZERO, outcome = 0\<rparr>"
    by (simp add: measure_state_def Let_def)
  have "normSquared \<lparr>alpha = createComplex 0 0, beta = createComplex 2 0\<rparr> \<noteq> 1
      \<and> 1 < getProbability \<lparr>alpha = createComplex 0 0, beta = createComplex 2 0\<rparr>"
    by (simp add: heavy_state)
  then have ex: "\<exists>s'. normSquared s' \<noteq> 1 \<and> 1 < getProbability s'" by blast
  from p nn m ex bloch_on_sphere [of s] show ?thesis by blast
qed

theorem nonnormalized_results_witness:
  "normSquared \<lparr>alpha = createComplex 0 0, beta = createComplex 2 0\<rparr> \<noteq> 1
   \<and> getProbability \<lparr>alpha = createComplex 0 0, beta = createComplex 2 0\<rparr> = 4
   \<and> measure_state \<lparr>alpha = createComplex 0 0, beta = createComplex 2 0\<rparr> (1 / 2)
       = \<lparr>collapsedState = STATE_ONE, outcome = 1\<rparr>
   \<and> (x (getBlochCoordinates \<lparr>alpha = createComplex 0 0, beta = createComplex 2 0\<rparr>))\<^sup>2
      + (y (getBlochCoordinates \<lparr>alpha = createComplex 0 0, beta = createComplex 2 0\<rparr>))\<^sup>2
      + (z (getBlochCoordinates \<lparr>alpha = createComplex 0 0, beta = createComplex 2 0\<rparr>))\<^sup>2 = 1"
proof -
  have n: "normSquared \<lparr>alpha = createComplex 0 0, beta = createComplex 2 0\<rparr> \<noteq> 1"
    by (simp add: heavy_state)
  have m: "measure_state \<lparr>alpha = createComplex 0 0, beta = createComplex 2 0\<rparr> (1 / 2)
       = \<lparr>collapsedState = STATE_ONE, outcome = 1\<rparr>"
    by (simp add: measure_state_def Let_def heavy_state)
  from n m nonnormalized_results [OF n, of "1 / 2"] show ?thesis
    by (simp add: heavy_state)
qed

end
